theory Spec2Isabelle
  imports Complex_Main "HOL-Library.Log_Nat"
begin

section \<open>Numbers\<close>

text \<open>
  The TypeScript sources compute with \<open>number\<close>, the binary64 format of IEEE 754. A finite
  number is a real; counts, list indices and millisecond timestamps are integers. A
  division whose divisor is zero does not raise in JavaScript: it yields Infinity,
  -Infinity or NaN. Such a result is \<open>None\<close> here, and stays \<open>None\<close> through every later sum
  and product, as a non-finite number does.

  Where a property is an equation between the results of the same operations, the
  operations are written exactly. Where it is an inequality that rounding can decide, as
  for the horizontal extents of overlapping events, every operation is rounded to binary64
  with \<open>fl64\<close> below.
\<close>

definition js_div :: "real \<Rightarrow> real \<Rightarrow> real option" where
  "js_div a b = (if b = 0 then None else Some (a / b))"

subsection \<open>Rounding to binary64\<close>

text \<open>Rounding to the nearest integer, a tie going to the even one.\<close>

definition rne :: "real \<Rightarrow> int" where
  "rne x =
     (let f = \<lfloor>x\<rfloor>; r = x - of_int f
      in if r < 1 / 2 then f else if 1 / 2 < r then f + 1 else if even f then f else f + 1)"

text \<open>For \<open>x > 0\<close>, the integer \<open>k\<close> with \<open>2 ^ k \<le> x < 2 ^ (k + 1)\<close>.\<close>

definition ilog2 :: "real \<Rightarrow> int" where
  "ilog2 x = (if 1 \<le> x then bitlen \<lfloor>x\<rfloor> - 1 else - bitlen (\<lceil>1 / x\<rceil> - 1))"

text \<open>The exponent of the last place of \<open>x\<close>: a significand of 53 bits, and -1074 for
  the subnormal numbers.\<close>

definition expo :: "real \<Rightarrow> int" where
  "expo x = max (ilog2 \<bar>x\<bar> - 52) (- 1074)"

text \<open>The binary64 number nearest to \<open>x\<close>, ties to even; \<open>None\<close> when it overflows to an
  infinity.\<close>

definition fl64 :: "real \<Rightarrow> real option" where
  "fl64 x =
     (if x = 0 then Some 0
      else
        let e = expo x;
            r = of_int (rne (x / 2 powi e)) * 2 powi e
        in if \<bar>r\<bar> < 2 powi 1024 then Some r else None)"

text \<open>The four operations of \<open>number\<close>: the exact result, rounded. A non-finite operand
  gives a non-finite result; so does a division by zero.\<close>

definition add64 :: "real option \<Rightarrow> real option \<Rightarrow> real option" where
  "add64 a b =
     (case a of None \<Rightarrow> None
      | Some x \<Rightarrow> (case b of None \<Rightarrow> None | Some y \<Rightarrow> fl64 (x + y)))"

definition sub64 :: "real option \<Rightarrow> real option \<Rightarrow> real option" where
  "sub64 a b =
     (case a of None \<Rightarrow> None
      | Some x \<Rightarrow> (case b of None \<Rightarrow> None | Some y \<Rightarrow> fl64 (x - y)))"

definition mul64 :: "real option \<Rightarrow> real option \<Rightarrow> real option" where
  "mul64 a b =
     (case a of None \<Rightarrow> None
      | Some x \<Rightarrow> (case b of None \<Rightarrow> None | Some y \<Rightarrow> fl64 (x * y)))"

definition div64 :: "real option \<Rightarrow> real option \<Rightarrow> real option" where
  "div64 a b =
     (case a of None \<Rightarrow> None
      | Some x \<Rightarrow>
          (case b of None \<Rightarrow> None | Some y \<Rightarrow> if y = 0 then None else fl64 (x / y)))"

section \<open>EventItem: the layout of one packed event\<close>

text \<open>Modelled from the spec: the constant \<open>MILLISECONDS_IN_DAY\<close> is imported from
  \<open>../constants\<close>, which is not among the sources. It is the number of milliseconds of a
  day.\<close>

definition MILLISECONDS_IN_DAY :: int where
  "MILLISECONDS_IN_DAY = 86400000"

text \<open>The \<open>_internal\<close> part of a \<open>PackedEvent\<close>, with the fields that EventItem reads.
  \<open>startMinutes\<close> may be undefined; \<open>eventStartUnix\<close> is \<open>_internal.startUnix\<close>, under the
  name the component gives it.\<close>

record Internal =
  duration :: real
  startMinutes :: "real option"
  total :: int
  index :: int
  columnSpan :: int
  eventStartUnix :: int

text \<open>An event as the host application gives it (\<open>EventItem\<close> of \<open>./types\<close>, of which
  the sources show the use only), and a packed event: the same fields and the layout
  metadata \<open>_internal\<close>.\<close>

record EventItem =
  eventId :: string
  title :: "string option"
  color :: "string option"

record PackedEvent = EventItem +
  internal :: Internal

text \<open>What \<open>useBody()\<close> hands to EventItem. The animated values are read at their
  current value.\<close>

record BodyContext =
  minuteHeight :: real
  columnWidthAnim :: real
  start :: real
  endMinutes :: real
  rightEdgeSpacing :: real
  overlapEventsSpacing :: real

record VisibleDate =
  vdDiffDays :: int
  vdUnix :: int

record EventItemProps =
  event :: PackedEvent
  startUnix :: int
  isDragging :: bool
  visibleDates :: "int \<rightharpoonup> VisibleDate"

record EventData =
  totalDuration :: real
  dataStartMinutes :: real
  diffDays :: int

text \<open>
  The two loops of \<open>data\<close>: \<open>for (let i = lo; i < hi; i += MILLISECONDS_IN_DAY)\<close>, adding
  \<open>delta\<close> (1 in the first loop, -1 in the second) to \<open>diffDays\<close> for every \<open>i\<close> that is no
  key of \<open>visibleDates\<close>.
\<close>

function skipHiddenDays :: "(int \<rightharpoonup> 'v) \<Rightarrow> int \<Rightarrow> int \<Rightarrow> int \<Rightarrow> int \<Rightarrow> int" where
  "skipHiddenDays vd delta i hi acc =
     (if i < hi
      then skipHiddenDays vd delta (i + MILLISECONDS_IN_DAY) hi
             (if vd i = None then acc + delta else acc)
      else acc)"
  by pat_completeness auto
termination
  by (relation "measure (\<lambda>(vd, delta, i, hi, acc). nat (hi - i))")
     (auto simp: MILLISECONDS_IN_DAY_def)

definition data :: "'c BodyContext_scheme \<Rightarrow> 'a Internal_scheme \<Rightarrow> int
    \<Rightarrow> (int \<rightharpoonup> 'v) \<Rightarrow> EventData" where
  "data ctx it startUnix' vd =
     (let maxDuration = endMinutes ctx - start ctx;
          startMinutes0 = (case startMinutes it of None \<Rightarrow> 0 | Some m \<Rightarrow> m);
          newStart = startMinutes0 - start ctx;
          totalDuration0 = min (duration it) maxDuration;
          totalDuration1 = (if newStart < 0 then totalDuration0 + newStart else totalDuration0);
          newStart1 = (if newStart < 0 then 0 else newStart);
          diffDays0 = (eventStartUnix it - startUnix') div MILLISECONDS_IN_DAY;
          diffDays1 =
            (if eventStartUnix it < startUnix'
             then skipHiddenDays vd 1 (eventStartUnix it) startUnix' diffDays0
             else skipHiddenDays vd (- 1) startUnix' (eventStartUnix it) diffDays0)
      in \<lparr>totalDuration = totalDuration1, dataStartMinutes = newStart1,
          diffDays = diffDays1\<rparr>)"

definition eventHeight :: "'c BodyContext_scheme \<Rightarrow> EventData \<Rightarrow> real" where
  "eventHeight ctx d = totalDuration d * minuteHeight ctx"

text \<open>The target of the width animation, with its operations written exactly.
  \<open>totalWidth / total\<close> divides by \<open>total\<close>.\<close>

definition eventWidth :: "'c BodyContext_scheme \<Rightarrow> 'a Internal_scheme \<Rightarrow> real option" where
  "eventWidth ctx it =
     (let totalColumns = total it - columnSpan it;
          totalOverlap = of_int totalColumns * overlapEventsSpacing ctx;
          totalWidth = columnWidthAnim ctx - rightEdgeSpacing ctx - totalOverlap
      in map_option (\<lambda>q. q * of_int (columnSpan it)) (js_div totalWidth (of_int (total it))))"

text \<open>The derived value \<open>top\<close>.\<close>

definition topPos :: "'c BodyContext_scheme \<Rightarrow> EventData \<Rightarrow> real" where
  "topPos ctx d = dataStartMinutes d * minuteHeight ctx"

text \<open>
  The animated shared values of the component, at their current value. \<open>eventWidth.value\<close>
  moves towards the target that \<open>eventWidth\<close> computes, \<open>eventPosX.value\<close> towards the one
  that \<open>eventPosX\<close> computes; how they move in time is not modelled.
\<close>

record SharedValues =
  eventWidthValue :: "real option"
  eventPosXValue :: "real option"

text \<open>The target of the width animation, every operation rounded.\<close>

definition eventWidth64 :: "'c BodyContext_scheme \<Rightarrow> 'a Internal_scheme \<Rightarrow> real option" where
  "eventWidth64 ctx it =
     (let totalColumns = sub64 (Some (of_int (total it))) (Some (of_int (columnSpan it)));
          totalOverlap = mul64 totalColumns (Some (overlapEventsSpacing ctx));
          totalWidth =
            sub64 (sub64 (Some (columnWidthAnim ctx)) (Some (rightEdgeSpacing ctx))) totalOverlap;
          width = mul64 (div64 totalWidth (Some (of_int (total it))))
                    (Some (of_int (columnSpan it)))
      in width)"

text \<open>The target of the left animation, every operation rounded. It reads
  \<open>eventWidth.value\<close>, the current value of the animated width.\<close>

definition eventPosX64 :: "'c BodyContext_scheme \<Rightarrow> EventData \<Rightarrow> 'a Internal_scheme
    \<Rightarrow> 's SharedValues_scheme \<Rightarrow> real option" where
  "eventPosX64 ctx d it sv =
     (let left0 = mul64 (Some (of_int (diffDays d))) (Some (columnWidthAnim ctx));
          left = add64 left0
                   (mul64 (add64 (eventWidthValue sv) (Some (overlapEventsSpacing ctx)))
                      (Some (of_int (index it))))
      in left)"

text \<open>What one evaluation of the component computes: \<open>eventHeight\<close>, the targets of
  \<open>eventWidth\<close> and \<open>eventPosX\<close>, and \<open>top\<close>.\<close>

record Layout =
  layoutHeight :: real
  layoutWidth :: "real option"
  layoutLeft :: "real option"
  layoutTop :: real

definition layout :: "'c BodyContext_scheme \<Rightarrow> 'p EventItemProps_scheme
    \<Rightarrow> 's SharedValues_scheme \<Rightarrow> Layout" where
  "layout ctx props sv =
     (let it = internal (event props);
          d = data ctx it (startUnix props) (visibleDates props)
      in \<lparr>layoutHeight = eventHeight ctx d,
          layoutWidth = eventWidth64 ctx it,
          layoutLeft = eventPosX64 ctx d it sv,
          layoutTop = topPos ctx d\<rparr>)"



section \<open>CalendarContainer: the number of days\<close>

datatype error = Error string | TypeError

text \<open>The props \<open>numberOfDays\<close> and \<open>hideWeekDays\<close>, under the names the component binds
  them to. Both may be left out.\<close>

record CalendarProviderProps =
  initialNumberOfDays :: "int option"
  initialHideWeekDays :: "int list option"

record DayColumns =
  daysToShow :: int
  numberOfDays :: int
  isSingleDay :: bool
  columns :: int

text \<open>The guard at the head of the component and the values derived from the two props.
  The state \<open>hideWeekDays\<close> holds \<open>initialHideWeekDays ?? []\<close>.\<close>

definition CalendarContainer :: "'a CalendarProviderProps_scheme \<Rightarrow> error + DayColumns" where
  "CalendarContainer props =
     (let initialNumberOfDays' = (case initialNumberOfDays props of None \<Rightarrow> 7 | Some n \<Rightarrow> n)
      in if initialNumberOfDays' > 7 then Inl (Error ''The maximum number of days is 7'')
         else
           let hideWeekDays = (case initialHideWeekDays props of None \<Rightarrow> [] | Some ds \<Rightarrow> ds);
               hideWeekDaysCount = int (length hideWeekDays);
               daysToShow' = 7 - hideWeekDaysCount;
               numberOfDays' =
                 (if initialNumberOfDays' > daysToShow' then daysToShow' else initialNumberOfDays');
               isSingleDay' = (numberOfDays' = 1);
               columns' = (if isSingleDay' then 1 else daysToShow')
           in Inr \<lparr>daysToShow = daysToShow', numberOfDays = numberOfDays',
                    isSingleDay = isSingleDay', columns = columns'\<rparr>)"

section \<open>zoom\<close>

text \<open>Modelled from the spec: \<open>clampValues\<close> is imported from \<open>./utils/utils\<close>, which is not
  among the sources. The specification says of it that \<open>clampValues(v, min, max)\<close> lies
  within \<open>[min, max]\<close>; this is the usual clamp.\<close>

definition clampValues :: "real \<Rightarrow> real \<Rightarrow> real \<Rightarrow> real" where
  "clampValues v lo hi = max lo (min v hi)"

record ZoomProps =
  scale :: "real option"
  height :: "real option"

text \<open>The props and shared values that \<open>zoom\<close> reads.\<close>

record ZoomEnv =
  initialTimeIntervalHeight :: real
  minTimeIntervalHeight :: real
  maxTimeIntervalHeight :: real
  timeIntervalHeight :: real
  offsetY :: real

text \<open>What \<open>zoom\<close> does: \<open>zoomHeight\<close> is the target given to \<open>timeIntervalHeight\<close>,
  \<open>zoomY\<close> the vertical offset given to \<open>scrollTo\<close>.\<close>

record ZoomEffect =
  zoomHeight :: real
  zoomY :: "real option"

text \<open>\<open>props?.height ?? initialTimeIntervalHeight\<close>, replaced by
  \<open>timeIntervalHeight.value * props.scale\<close> when \<open>props?.scale\<close> is truthy, that is given and
  not zero.\<close>

definition newHeight :: "'e ZoomEnv_scheme \<Rightarrow> ZoomProps option \<Rightarrow> real" where
  "newHeight env props =
     (let newHeight0 =
            (case Option.bind props height of
               None \<Rightarrow> initialTimeIntervalHeight env
             | Some h \<Rightarrow> h)
      in case Option.bind props scale of
           None \<Rightarrow> newHeight0
         | Some s \<Rightarrow> if s \<noteq> 0 then timeIntervalHeight env * s else newHeight0)"

text \<open>The first argument stands for \<open>clampValues\<close>.\<close>

definition zoom :: "(real \<Rightarrow> real \<Rightarrow> real \<Rightarrow> real) \<Rightarrow> 'e ZoomEnv_scheme
    \<Rightarrow> ZoomProps option \<Rightarrow> ZoomEffect" where
  "zoom clamp env props =
     (let clampedHeight =
            clamp (newHeight env props) (minTimeIntervalHeight env) (maxTimeIntervalHeight env);
          pinchYNormalized = js_div (offsetY env) (timeIntervalHeight env);
          pinchYScale = map_option (\<lambda>n. clampedHeight * n) pinchYNormalized;
          y = pinchYScale
      in \<lparr>zoomHeight = clampedHeight, zoomY = y\<rparr>)"

text \<open>The new height as the specification words it: \<open>height\<close> if given, else
  \<open>timeIntervalHeight * scale\<close> if \<open>scale\<close> is given, else \<open>initialTimeIntervalHeight\<close>.\<close>

definition spec_newHeight :: "'e ZoomEnv_scheme \<Rightarrow> ZoomProps option \<Rightarrow> real" where
  "spec_newHeight env props =
     (case Option.bind props height of
        Some h \<Rightarrow> h
      | None \<Rightarrow>
          (case Option.bind props scale of
             Some s \<Rightarrow> timeIntervalHeight env * s
           | None \<Rightarrow> initialTimeIntervalHeight env))"

section \<open>Page navigation\<close>

text \<open>\<open>Array.prototype.indexOf\<close>: the first position of the value, or -1.\<close>

fun indexOfFrom :: "int \<Rightarrow> int list \<Rightarrow> int \<Rightarrow> int" where
  "indexOfFrom i [] x = - 1"
| "indexOfFrom i (y # ys) x = (if y = x then i else indexOfFrom (i + 1) ys x)"

definition indexOf :: "int list \<Rightarrow> int \<Rightarrow> int" where
  "indexOf xs x = indexOfFrom 0 xs x"

text \<open>Reading \<open>xs[i]\<close>: \<open>undefined\<close> (here \<open>None\<close>) outside the array.\<close>

definition elemAt :: "'a list \<Rightarrow> int \<Rightarrow> 'a option" where
  "elemAt xs i = (if 0 \<le> i \<and> i < int (length xs) then Some (xs ! nat i) else None)"

text \<open>A number or \<open>undefined\<close> used as a condition: \<open>undefined\<close> and 0 are falsy.\<close>

definition truthy :: "int option \<Rightarrow> bool" where
  "truthy v = (case v of None \<Rightarrow> False | Some n \<Rightarrow> n \<noteq> 0)"

text \<open>Modelled from the spec: the enum \<open>ScrollType\<close> is declared in \<open>./constants\<close>, which
  is not among the sources. The specification names the day list and the time grid as the
  scrolled views; the container only ever assigns \<open>calendarGrid\<close>.\<close>

datatype ScrollType = dayBar | calendarGrid

text \<open>The values of the container that the navigation and the lookups by offset read.
  \<open>visibleDateUnix\<close> is \<open>visibleDateUnix.current\<close>, \<open>calMinuteHeight\<close> is
  \<open>minuteHeight.value\<close>, \<open>calStart\<close> is the prop \<open>start\<close>. \<open>calendarListRef\<close> is the method
  \<open>isScrollable\<close> of \<open>calendarListRef.current\<close>, or \<open>None\<close> while that is null.\<close>

record Calendar =
  days :: DayColumns
  visibleDatesArray :: "int list"
  visibleDateUnix :: int
  scrollByDay :: bool
  columnWidth :: real
  calendarGridWidth :: real
  calMinuteHeight :: real
  calStart :: real
  calendarListRef :: "(real option \<Rightarrow> int \<Rightarrow> bool) option"

text \<open>One call \<open>scrollTo(gridListRef, x, 0, animated)\<close>.\<close>

record GridScroll =
  scrollX :: "real option"
  scrollAnimated :: bool

text \<open>The mutable refs that the navigation writes, and the scrolls it has issued, the
  latest last.\<close>

record NavState =
  triggerDateChanged :: "int option"
  scrollType :: ScrollType
  gridScrolls :: "GridScroll list"

text \<open>\<open>Math.floor(nextVisibleDayIndex / columns) * (columnWidth * columns)\<close>.\<close>

definition pageOffset :: "'c Calendar_scheme \<Rightarrow> int \<Rightarrow> real option" where
  "pageOffset cal nextVisibleDayIndex =
     (let pageIndex =
            map_option floor
              (js_div (of_int nextVisibleDayIndex) (of_int (columns (days cal))))
      in map_option (\<lambda>p. of_int p * (columnWidth cal * of_int (columns (days cal)))) pageIndex)"

text \<open>The target of \<open>goToNextPage\<close> and of \<open>goToPrevPage\<close>, from the index of the current
  visible date: \<open>nextVisibleDayIndex\<close> and \<open>nextOffset\<close>.\<close>

definition nextPageTarget :: "'c Calendar_scheme \<Rightarrow> bool \<Rightarrow> int \<Rightarrow> int \<times> real option" where
  "nextPageTarget cal forceScrollByDay currentIndex =
     (if isSingleDay (days cal) \<or> forceScrollByDay \<or> scrollByDay cal
      then
        let nextVisibleDayIndex = currentIndex + 1;
            colWidth =
              (if isSingleDay (days cal) then calendarGridWidth cal else columnWidth cal)
        in (nextVisibleDayIndex, Some (of_int nextVisibleDayIndex * colWidth))
      else
        let nextVisibleDayIndex = currentIndex + columns (days cal)
        in (nextVisibleDayIndex, pageOffset cal nextVisibleDayIndex))"

definition prevPageTarget :: "'c Calendar_scheme \<Rightarrow> bool \<Rightarrow> int \<Rightarrow> int \<times> real option" where
  "prevPageTarget cal forceScrollByDay currentIndex =
     (if isSingleDay (days cal) \<or> forceScrollByDay \<or> scrollByDay cal
      then
        let nextVisibleDayIndex = max (currentIndex - 1) 0;
            colWidth =
              (if isSingleDay (days cal) then calendarGridWidth cal else columnWidth cal)
        in (nextVisibleDayIndex, Some (of_int nextVisibleDayIndex * colWidth))
      else
        let nextVisibleDayIndex = max (currentIndex - columns (days cal)) 0
        in (nextVisibleDayIndex, pageOffset cal nextVisibleDayIndex))"

text \<open>\<open>calendarListRef.current?.isScrollable(offset, numberOfDays)\<close> as a condition:
  \<open>undefined\<close> is falsy.\<close>

definition isScrollable :: "'c Calendar_scheme \<Rightarrow> real option \<Rightarrow> bool" where
  "isScrollable cal offset =
     (case calendarListRef cal of
        None \<Rightarrow> False
      | Some f \<Rightarrow> f offset (numberOfDays (days cal)))"

definition goToNextPage :: "'c Calendar_scheme \<Rightarrow> bool option \<Rightarrow> bool option
    \<Rightarrow> NavState \<Rightarrow> NavState" where
  "goToNextPage cal animated forceScrollByDay st =
     (let animated' = (case animated of None \<Rightarrow> True | Some b \<Rightarrow> b);
          forceScrollByDay' = (case forceScrollByDay of None \<Rightarrow> False | Some b \<Rightarrow> b)
      in if truthy (triggerDateChanged st) then st
         else
           let currentIndex = indexOf (visibleDatesArray cal) (visibleDateUnix cal)
           in if currentIndex = - 1 then st
              else
                let (nextVisibleDayIndex, nextOffset) =
                      nextPageTarget cal forceScrollByDay' currentIndex;
                    nextDateUnix = elemAt (visibleDatesArray cal) nextVisibleDayIndex
                in if \<not> truthy nextDateUnix \<or> \<not> isScrollable cal nextOffset
                   then st\<lparr>triggerDateChanged := None\<rparr>
                   else st\<lparr>triggerDateChanged := nextDateUnix,
                           scrollType := calendarGrid,
                           gridScrolls := gridScrolls st
                             @ [\<lparr>scrollX = nextOffset, scrollAnimated = animated'\<rparr>]\<rparr>)"

definition goToPrevPage :: "'c Calendar_scheme \<Rightarrow> bool option \<Rightarrow> bool option
    \<Rightarrow> NavState \<Rightarrow> NavState" where
  "goToPrevPage cal animated forceScrollByDay st =
     (let animated' = (case animated of None \<Rightarrow> True | Some b \<Rightarrow> b);
          forceScrollByDay' = (case forceScrollByDay of None \<Rightarrow> False | Some b \<Rightarrow> b)
      in if truthy (triggerDateChanged st) then st
         else
           let currentIndex = indexOf (visibleDatesArray cal) (visibleDateUnix cal)
           in if currentIndex = - 1 then st
              else
                let (nextVisibleDayIndex, nextOffset) =
                      prevPageTarget cal forceScrollByDay' currentIndex;
                    nextDateUnix = elemAt (visibleDatesArray cal) nextVisibleDayIndex
                in if \<not> truthy nextDateUnix \<or> \<not> isScrollable cal nextOffset
                   then st\<lparr>triggerDateChanged := None\<rparr>
                   else st\<lparr>triggerDateChanged := nextDateUnix,
                           scrollType := calendarGrid,
                           gridScrolls := gridScrolls st
                             @ [\<lparr>scrollX = nextOffset, scrollAnimated = animated'\<rparr>]\<rparr>)"

section \<open>getEventByOffset\<close>

record Position =
  posX :: real
  posY :: real

text \<open>The value of \<open>parseDateTime(dateUnixByIndex).plus({ minutes })\<close>: the day and the
  minutes added to it (\<open>None\<close> when \<open>minutes\<close> is not finite).\<close>

record DateTime =
  dtUnix :: int
  dtMinutes :: "real option"

definition getDateByOffset :: "'c Calendar_scheme \<Rightarrow> Position \<Rightarrow> DateTime option" where
  "getDateByOffset cal position =
     (let dayIndex = indexOf (visibleDatesArray cal) (visibleDateUnix cal)
      in if dayIndex = - 1 then None
         else
           (case map_option floor (js_div (posX position) (columnWidth cal)) of
              None \<Rightarrow> None
            | Some columnIndex \<Rightarrow>
                (case elemAt (visibleDatesArray cal) (dayIndex + columnIndex) of
                   None \<Rightarrow> None
                 | Some dateUnixByIndex \<Rightarrow>
                     if dateUnixByIndex = 0 then None
                     else
                       let minutes =
                             map_option (\<lambda>q. of_int (floor q) + calStart cal)
                               (js_div (posY position) (calMinuteHeight cal))
                       in Some \<lparr>dtUnix = dateUnixByIndex, dtMinutes = minutes\<rparr>)))"

text \<open>
  Event objects live in a store; an address is a position in it. \<open>_internal\<close> is a
  property that an object has or has not; the other properties are those of \<open>EventItem\<close>.
  \<open>{ ...event }\<close> allocates a copy at the end of the store, \<open>delete\<close> removes the property.
\<close>

record JsEvent =
  objInternal :: "Internal option"
  objItem :: EventItem

type_synonym store = "JsEvent list"

definition spread :: "store \<Rightarrow> JsEvent \<Rightarrow> nat \<times> store" where
  "spread h ev = (length h, h @ [ev])"

definition delete_internal :: "store \<Rightarrow> nat \<Rightarrow> store" where
  "delete_internal h a = (if a < length h then h[a := (h ! a)\<lparr>objInternal := None\<rparr>] else h)"

text \<open>The test of the loop body: whether \<open>targetX\<close> is in the band of the event.
  With \<open>total = 0\<close> the band has no finite edge and the test is false.\<close>

definition inBand :: "real \<Rightarrow> real \<Rightarrow> Internal \<Rightarrow> bool" where
  "inBand columnWidth' targetX it =
     (case js_div columnWidth' (of_int (total it)) of
        None \<Rightarrow> False
      | Some eventWidth' \<Rightarrow>
          let eventX = of_int (index it) * eventWidth'
          in targetX \<ge> eventX \<and> targetX \<le> eventX + eventWidth')"

text \<open>The loop over \<open>eventsByDate\<close>: the address of the first event whose band holds
  \<open>targetX\<close>. Reading \<open>_internal\<close> of something that has none is a TypeError.\<close>

fun findEvent :: "store \<Rightarrow> real \<Rightarrow> real \<Rightarrow> nat list \<Rightarrow> error + nat option" where
  "findEvent h columnWidth' targetX [] = Inr None"
| "findEvent h columnWidth' targetX (a # as) =
     (case Option.bind (elemAt h (int a)) objInternal of
        None \<Rightarrow> Inl TypeError
      | Some it \<Rightarrow>
          if inBand columnWidth' targetX it then Inr (Some a)
          else findEvent h columnWidth' targetX as)"

text \<open>\<open>getEventsByDate\<close> stands for \<open>eventsRef.current?.getEventsByDate\<close> applied to the
  date string of the date; it is \<open>None\<close> while \<open>eventsRef.current\<close> is null. The result is
  the address of the clone or \<open>null\<close>, and the store afterwards.\<close>

definition getEventByOffset :: "'c Calendar_scheme \<Rightarrow> (DateTime \<Rightarrow> nat list) option
    \<Rightarrow> store \<Rightarrow> Position \<Rightarrow> error + (nat option \<times> store)" where
  "getEventByOffset cal getEventsByDate h position =
     (case getDateByOffset cal position of
        None \<Rightarrow> Inr (None, h)
      | Some date \<Rightarrow>
          (let columnIndex = floor (posX position / columnWidth cal);
               eventsByDate = (case getEventsByDate of None \<Rightarrow> [] | Some f \<Rightarrow> f date);
               targetX = posX position - of_int columnIndex * columnWidth cal
           in (case findEvent h (columnWidth cal) targetX eventsByDate of
                 Inl e \<Rightarrow> Inl e
               | Inr None \<Rightarrow> Inr (None, h)
               | Inr (Some a) \<Rightarrow>
                   (let (clonedEvent, h1) = spread h (h ! a);
                        h2 = delete_internal h1 clonedEvent
                    in Inr (Some clonedEvent, h2)))))"

section \<open>Concrete inputs\<close>


definition second_of_two :: Internal where
  "second_of_two = \<lparr>duration = 60, startMinutes = Some 0, total = 2, index = 1,
     columnSpan = 1, eventStartUnix = 0\<rparr>"

definition first_of_two :: Internal where
  "first_of_two = \<lparr>duration = 60, startMinutes = Some 0, total = 2, index = 0,
     columnSpan = 1, eventStartUnix = 0\<rparr>"


text \<open>A day column 100 wide with the spacings 1 and 1, one hour high per 60 minutes, and
  the same column with minutes twice as high.\<close>

definition wide_ctx :: BodyContext where
  "wide_ctx = \<lparr>minuteHeight = 1, columnWidthAnim = 100, start = 0, endMinutes = 1440,
     rightEdgeSpacing = 1, overlapEventsSpacing = 1\<rparr>"

definition tall_ctx :: BodyContext where
  "tall_ctx = wide_ctx\<lparr>minuteHeight := 2\<rparr>"






text \<open>The animated values of the second of two events in the wide column: at rest, with
  the width still growing, and with the left edge still moving.\<close>

definition settled :: SharedValues where
  "settled = \<lparr>eventWidthValue = Some 49, eventPosXValue = Some 50\<rparr>"

definition growing :: SharedValues where
  "growing = \<lparr>eventWidthValue = Some 20, eventPosXValue = Some 50\<rparr>"

definition moving :: SharedValues where
  "moving = \<lparr>eventWidthValue = Some 49, eventPosXValue = Some 0\<rparr>"

text \<open>An event that overlaps no other, and one that begins an hour before a window
  opening at 08:00.\<close>

definition alone :: Internal where
  "alone = \<lparr>duration = 60, startMinutes = Some 0, total = 1, index = 0,
     columnSpan = 1, eventStartUnix = 0\<rparr>"

definition early :: Internal where
  "early = \<lparr>duration = 90, startMinutes = Some 420, total = 1, index = 0,
     columnSpan = 1, eventStartUnix = 0\<rparr>"

definition morning_ctx :: BodyContext where
  "morning_ctx = wide_ctx\<lparr>start := 480\<rparr>"

text \<open>Two renderings of that event which differ in everything but the layout inputs.\<close>

definition lone_props :: EventItemProps where
  "lone_props = \<lparr>event = \<lparr>eventId = ''a'', title = Some ''Lunch'', color = None,
       internal = alone\<rparr>,
     startUnix = 0, isDragging = False, visibleDates = Map.empty\<rparr>"

definition dragged_props :: EventItemProps where
  "dragged_props = \<lparr>event = \<lparr>eventId = ''b'', title = None, color = Some ''red'',
       internal = alone\<rparr>,
     startUnix = 0, isDragging = True, visibleDates = Map.empty\<rparr>"

definition second_props :: EventItemProps where
  "second_props = \<lparr>event = \<lparr>eventId = ''b'', title = None, color = Some ''red'',
       internal = second_of_two\<rparr>,
     startUnix = 0, isDragging = False, visibleDates = Map.empty\<rparr>"

text \<open>The default heights (60 to 124, at 60) scrolled down by 300, the same with the two
  bounds given in the wrong order, and a call of \<open>zoom\<close> with both arguments.\<close>

definition zoom_env :: ZoomEnv where
  "zoom_env = \<lparr>initialTimeIntervalHeight = 60, minTimeIntervalHeight = 60,
     maxTimeIntervalHeight = 124, timeIntervalHeight = 60, offsetY = 300\<rparr>"

definition inverted_env :: ZoomEnv where
  "inverted_env = zoom_env\<lparr>minTimeIntervalHeight := 100, maxTimeIntervalHeight := 50\<rparr>"

definition both_props :: ZoomProps where
  "both_props = \<lparr>scale = Some 2, height = Some 100\<rparr>"

text \<open>Props asking for eight days, and for five days with two week days hidden.\<close>

definition eight_days :: CalendarProviderProps where
  "eight_days = \<lparr>initialNumberOfDays = Some 8, initialHideWeekDays = None\<rparr>"

definition five_days :: CalendarProviderProps where
  "five_days = \<lparr>initialNumberOfDays = Some 6, initialHideWeekDays = Some [6, 7]\<rparr>"

text \<open>A single-day calendar over three dates, showing the first of them or the last, with
  columns 100 wide and a list that scrolls anywhere; a state with no page change pending
  and one with a change pending.\<close>

definition three_dates :: Calendar where
  "three_dates = \<lparr>days = \<lparr>daysToShow = 7, numberOfDays = 1, isSingleDay = True, columns = 1\<rparr>,
     visibleDatesArray = [86400000, 172800000, 259200000], visibleDateUnix = 86400000,
     scrollByDay = False, columnWidth = 100, calendarGridWidth = 100,
     calMinuteHeight = 1, calStart = 0, calendarListRef = Some (\<lambda>offset n. True)\<rparr>"

definition at_last_date :: Calendar where
  "at_last_date = three_dates\<lparr>visibleDateUnix := 259200000\<rparr>"

definition idle :: NavState where
  "idle = \<lparr>triggerDateChanged = None, scrollType = dayBar, gridScrolls = []\<rparr>"

definition pending :: NavState where
  "pending = \<lparr>triggerDateChanged = Some 172800000, scrollType = calendarGrid,
     gridScrolls = []\<rparr>"

text \<open>Two overlapping events of the second date in the store, and two positions: one in
  the right half of the second column, one right of the last date.\<close>

definition two_events :: store where
  "two_events =
     [\<lparr>objInternal = Some first_of_two,
        objItem = \<lparr>eventId = ''a'', title = Some ''Lunch'', color = None\<rparr>\<rparr>,
      \<lparr>objInternal = Some second_of_two,
        objItem = \<lparr>eventId = ''b'', title = None, color = Some ''red''\<rparr>\<rparr>]"

definition events_of_day :: "DateTime \<Rightarrow> nat list" where
  "events_of_day date = (if dtUnix date = 172800000 then [0, 1] else [])"

definition on_second :: Position where
  "on_second = \<lparr>posX = 160, posY = 30\<rparr>"

definition beyond :: Position where
  "beyond = \<lparr>posX = 350, posY = 30\<rparr>"

section \<open>Properties of the event layout\<close>

subsection \<open>Rounding\<close>

lemma rne_cases: "rne x = \<lfloor>x\<rfloor> \<or> rne x = \<lfloor>x\<rfloor> + 1"
  by (simp add: rne_def Let_def)

lemma rne_of_int [simp]: "rne (of_int k) = k"
  by (simp add: rne_def)

lemma rne_0 [simp]: "rne 0 = 0"
  using rne_of_int[of 0] by simp

lemma rne_floor_le: "\<lfloor>x\<rfloor> \<le> rne x"
  using rne_cases[of x] by auto

lemma rne_le_floor: "rne x \<le> \<lfloor>x\<rfloor> + 1"
  using rne_cases[of x] by auto

lemma rne_mono_same:
  assumes "x \<le> y" "\<lfloor>x\<rfloor> = \<lfloor>y\<rfloor>"
  shows "rne x \<le> rne y"
proof -
  have "x - of_int \<lfloor>x\<rfloor> \<le> y - of_int \<lfloor>y\<rfloor>" using assms by simp
  then show ?thesis
    unfolding rne_def Let_def assms(2)
    by (simp split: if_splits)
qed

lemma rne_mono: "x \<le> y \<Longrightarrow> rne x \<le> rne y"
proof -
  assume xy: "x \<le> y"
  have fg: "\<lfloor>x\<rfloor> \<le> \<lfloor>y\<rfloor>" using xy by (rule floor_mono)
  show ?thesis
  proof (cases "\<lfloor>x\<rfloor> = \<lfloor>y\<rfloor>")
    case True
    with xy show ?thesis by (rule rne_mono_same)
  next
    case False
    with fg have "\<lfloor>x\<rfloor> + 1 \<le> \<lfloor>y\<rfloor>" by simp
    with rne_floor_le[of y] rne_le_floor[of x] show ?thesis by linarith
  qed
qed


lemma bitlen_real_bounds:
  assumes "0 < n"
  shows "(2::real) powi (bitlen n - 1) \<le> of_int n" "of_int n < (2::real) powi bitlen n"
proof -
  from bitlen_bounds[OF assms]
  have a: "2 ^ nat (bitlen n - 1) \<le> n" and b: "n < 2 ^ nat (bitlen n)" by auto
  have pos: "1 \<le> bitlen n"
    using assms by (auto simp: bitlen_alt_def)
  have "(2::real) powi (bitlen n - 1) = 2 ^ nat (bitlen n - 1)"
    using pos by (simp add: power_int_nonneg_exp)
  also have "\<dots> = of_int (2 ^ nat (bitlen n - 1))" by simp
  also have "\<dots> \<le> of_int n" using a by (simp only: of_int_le_iff)
  finally show "(2::real) powi (bitlen n - 1) \<le> of_int n" .
  have "of_int n < (of_int (2 ^ nat (bitlen n)) :: real)" using b by (simp only: of_int_less_iff)
  also have "\<dots> = 2 ^ nat (bitlen n)" by simp
  also have "\<dots> = 2 powi bitlen n" using pos by (simp add: power_int_nonneg_exp)
  finally show "of_int n < (2::real) powi bitlen n" .
qed

lemma ilog2_bounds:
  assumes "0 < x"
  shows "2 powi ilog2 x \<le> x" "x < 2 powi (ilog2 x + 1)"
proof -
  show "2 powi ilog2 x \<le> x"
  proof (cases "1 \<le> x")
    case True
    then have n: "0 < \<lfloor>x\<rfloor>" by linarith
    have "(2::real) powi (bitlen \<lfloor>x\<rfloor> - 1) \<le> of_int \<lfloor>x\<rfloor>"
      by (rule bitlen_real_bounds[OF n])
    also have "\<dots> \<le> x" by simp
    finally show ?thesis using True by (simp add: ilog2_def)
  next
    case False
    then have x1: "x < 1" by simp
    then have "1 < 1 / x" using assms by simp
    then have m: "0 < \<lceil>1 / x\<rceil> - 1" by linarith
    have "1 / x \<le> of_int \<lceil>1 / x\<rceil>" by simp
    also have "\<dots> = of_int (\<lceil>1 / x\<rceil> - 1) + 1" by simp
    also have "\<dots> \<le> 2 powi bitlen (\<lceil>1 / x\<rceil> - 1)"
    proof -
      have "\<lceil>1 / x\<rceil> - 1 < 2 ^ nat (bitlen (\<lceil>1 / x\<rceil> - 1))"
        using bitlen_bounds[OF m] by simp
      then have "\<lceil>1 / x\<rceil> - 1 + 1 \<le> 2 ^ nat (bitlen (\<lceil>1 / x\<rceil> - 1))" by linarith
      then have "(of_int (\<lceil>1 / x\<rceil> - 1 + 1) :: real)
                    \<le> of_int (2 ^ nat (bitlen (\<lceil>1 / x\<rceil> - 1)))"
        by (simp only: of_int_le_iff)
      then show ?thesis
        by (simp add: power_int_nonneg_exp bitlen_nonneg)
    qed
    finally have "1 / x \<le> 2 powi bitlen (\<lceil>1 / x\<rceil> - 1)" .
    then have "1 / 2 powi bitlen (\<lceil>1 / x\<rceil> - 1) \<le> x"
      using assms by (simp add: field_simps)
    then show ?thesis using False by (simp add: ilog2_def power_int_minus_divide)
  qed
  show "x < 2 powi (ilog2 x + 1)"
  proof (cases "1 \<le> x")
    case True
    then have n: "0 < \<lfloor>x\<rfloor>" by linarith
    have "x < of_int \<lfloor>x\<rfloor> + 1" by linarith
    also have "\<dots> \<le> 2 powi bitlen \<lfloor>x\<rfloor>"
    proof -
      have "\<lfloor>x\<rfloor> < 2 ^ nat (bitlen \<lfloor>x\<rfloor>)" using bitlen_bounds[OF n] by simp
      then have "\<lfloor>x\<rfloor> + 1 \<le> 2 ^ nat (bitlen \<lfloor>x\<rfloor>)" by linarith
      then have "(of_int (\<lfloor>x\<rfloor> + 1) :: real) \<le> of_int (2 ^ nat (bitlen \<lfloor>x\<rfloor>))"
        by (simp only: of_int_le_iff)
      then show ?thesis by (simp add: power_int_nonneg_exp bitlen_nonneg)
    qed
    finally show ?thesis using True by (simp add: ilog2_def)
  next
    case False
    then have x1: "x < 1" by simp
    then have "1 < 1 / x" using assms by simp
    then have m: "0 < \<lceil>1 / x\<rceil> - 1" by linarith
    have "(2::real) powi (bitlen (\<lceil>1 / x\<rceil> - 1) - 1) \<le> of_int (\<lceil>1 / x\<rceil> - 1)"
      by (rule bitlen_real_bounds[OF m])
    also have "\<dots> < 1 / x" by simp linarith
    finally have "2 powi (bitlen (\<lceil>1 / x\<rceil> - 1) - 1) < 1 / x" .
    then have "x < 1 / 2 powi (bitlen (\<lceil>1 / x\<rceil> - 1) - 1)"
      using assms by (simp add: field_simps)
    also have "\<dots> = 2 powi (- bitlen (\<lceil>1 / x\<rceil> - 1) + 1)"
      by (simp flip: power_int_minus_divide)
    finally show ?thesis using False by (simp add: ilog2_def)
  qed
qed

lemma ilog2_less: "0 < x \<Longrightarrow> x < 2 powi k \<Longrightarrow> ilog2 x < k"
proof -
  assume x: "0 < x" "x < 2 powi k"
  have "(2::real) powi ilog2 x < 2 powi k" using ilog2_bounds(1)[OF x(1)] x(2) by linarith
  then show ?thesis
    by (metis not_less power_int_increasing one_le_numeral)
qed




lemma expo_minus [simp]: "expo (- x) = expo x"
  by (simp add: expo_def)


lemma fl64_zero [simp]: "fl64 0 = Some 0"
  by (simp add: fl64_def)

lemma fl64_Some:
  "fl64 x = Some a \<Longrightarrow> a = of_int (rne (x / 2 powi expo x)) * 2 powi expo x"
  by (auto simp: fl64_def Let_def split: if_splits)



lemma below_binade:
  assumes "0 < x"
  shows "x < 2 powi (expo x + 53)"
proof -
  have "ilog2 x + 1 \<le> expo x + 53" using assms by (simp add: expo_def)
  then have "(2::real) powi (ilog2 x + 1) \<le> 2 powi (expo x + 53)"
    by (intro power_int_increasing) auto
  with ilog2_bounds(2)[OF assms] show ?thesis by linarith
qed



lemma rne_abs_le:
  assumes "\<bar>x\<bar> \<le> of_int k"
  shows "\<bar>rne x\<bar> \<le> k"
proof -
  have 1: "x \<le> of_int k" and 2: "of_int (- k) \<le> x" using assms by auto
  have "rne x \<le> rne (of_int k)" using 1 by (rule rne_mono)
  moreover have "rne (of_int (- k)) \<le> rne x" using 2 by (rule rne_mono)
  ultimately have "rne x \<le> k" "- k \<le> rne x" by (simp_all only: rne_of_int)
  then show ?thesis by linarith
qed

lemma fl64_grid_lt:
  assumes a: "a = of_int r * 2 powi e" and r: "\<bar>r\<bar> < 2 ^ 53" and e: "- 1074 \<le> e"
    and fin: "\<bar>a\<bar> < 2 powi 1024"
  shows "fl64 a = Some a"
proof (cases "a = 0")
  case True
  then show ?thesis by simp
next
  case False
  then have a0: "0 < \<bar>a\<bar>" by simp
  have "\<bar>a\<bar> = of_int \<bar>r\<bar> * 2 powi e" by (simp add: a abs_mult)
  also have "\<dots> < of_int (2 ^ 53) * 2 powi e"
    using r by (intro mult_strict_right_mono) (simp_all only: of_int_less_iff zero_less_power_int zero_less_numeral)
  also have "\<dots> = 2 powi (e + 53)" by (simp add: power_int_add)
  finally have "ilog2 \<bar>a\<bar> < e + 53" by (rule ilog2_less[OF a0])
  then have le: "expo a \<le> e" using e by (simp add: expo_def)
  then have d: "0 \<le> e - expo a" by simp
  have "a / 2 powi expo a = of_int r * 2 powi (e - expo a)"
    by (simp add: a power_int_diff)
  also have "2 powi (e - expo a) = (2::real) ^ nat (e - expo a)"
    using d by (rule power_int_nonneg_exp)
  finally have "a / 2 powi expo a = of_int (r * 2 ^ nat (e - expo a))" by simp
  then have "rne (a / 2 powi expo a) = r * 2 ^ nat (e - expo a)" by (simp only: rne_of_int)
  then have "of_int (rne (a / 2 powi expo a)) * 2 powi expo a
               = of_int r * ((2::real) ^ nat (e - expo a) * 2 powi expo a)" by simp
  also have "(2::real) ^ nat (e - expo a) * 2 powi expo a = 2 powi e"
    using d by (simp add: power_int_diff flip: power_int_nonneg_exp)
  finally have "of_int (rne (a / 2 powi expo a)) * 2 powi expo a = a" by (simp add: a)
  then show ?thesis using False fin by (simp add: fl64_def Let_def)
qed

lemma fl64_grid:
  assumes a: "a = of_int r * 2 powi e" and r: "\<bar>r\<bar> \<le> 2 ^ 53" and e: "- 1074 \<le> e"
    and fin: "\<bar>a\<bar> < 2 powi 1024"
  shows "fl64 a = Some a"
proof (cases "\<bar>r\<bar> < 2 ^ 53")
  case True
  with a show ?thesis using e fin by (rule fl64_grid_lt)
next
  case False
  with r have "\<bar>r\<bar> = 2 ^ 53" by simp
  then have "r = 2 ^ 53 \<or> r = - (2 ^ 53)" by linarith
  then have "a = of_int (r div 2) * 2 powi (e + 1) \<and> \<bar>r div 2\<bar> < 2 ^ 53"
    by (auto simp: a power_int_add)
  then show ?thesis using e fin by (intro fl64_grid_lt[of a "r div 2" "e + 1"]) auto
qed


lemma fl64_idem:
  assumes "fl64 x = Some a"
  shows "fl64 a = Some a"
proof (cases "x = 0")
  case True
  with assms show ?thesis by simp
next
  case False
  have a: "a = of_int (rne (x / 2 powi expo x)) * 2 powi expo x" by (rule fl64_Some[OF assms])
  have fin: "\<bar>a\<bar> < 2 powi 1024"
    using assms False by (auto simp: fl64_def Let_def split: if_splits)
  have "\<bar>x\<bar> < 2 powi (expo \<bar>x\<bar> + 53)" using False by (intro below_binade) simp
  then have "\<bar>x\<bar> < 2 powi (expo x + 53)" by (simp add: expo_def)
  then have "\<bar>x\<bar> / 2 powi expo x < 2 powi (expo x + 53) / 2 powi expo x"
    by (intro divide_strict_right_mono) auto
  then have "\<bar>x / 2 powi expo x\<bar> \<le> of_int (2 ^ 53)"
    by (simp add: power_int_add)
  then have "\<bar>rne (x / 2 powi expo x)\<bar> \<le> 2 ^ 53" by (rule rne_abs_le)
  moreover have "- 1074 \<le> expo x" by (simp add: expo_def)
  ultimately show ?thesis using a fin by (intro fl64_grid) auto
qed

subsection \<open>The horizontal extents\<close>






text \<open>For an event that overlaps no other, the rounded width is the exact one, rounded
  once: the other operations are exact.\<close>

lemma eventWidth64_lone:
  fixes ctx :: "'c BodyContext_scheme" and it :: "'a Internal_scheme"
  assumes "total it = 1" "columnSpan it = 1"
  shows "eventWidth64 ctx it = Option.bind (eventWidth ctx it) fl64"
proof (cases "fl64 (columnWidthAnim ctx - rightEdgeSpacing ctx)")
  case None
  then show ?thesis
    using assms by (simp add: eventWidth64_def eventWidth_def js_div_def sub64_def mul64_def
        div64_def)
next
  case (Some p)
  then have "fl64 p = Some p" by (rule fl64_idem)
  with Some show ?thesis
    using assms by (simp add: eventWidth64_def eventWidth_def js_div_def sub64_def mul64_def
        div64_def)
qed

lemma skipHiddenDays_done: "\<not> i < hi \<Longrightarrow> skipHiddenDays vd delta i hi acc = acc"
  by (subst skipHiddenDays.simps) simp

lemmas ev64 = fl64_def expo_def ilog2_def rne_def compute_bitlen Let_def
  add64_def sub64_def mul64_def div64_def eventWidth64_def eventPosX64_def




text \<open>
  C2, as stated, fails: an event that overlaps no other (\<open>total = 1\<close>, \<open>columnSpan = 1\<close>,
  \<open>index = 0\<close>) in a column 100 wide with a right edge spacing of 1 is 99 wide.
\<close>

theorem C2_right_edge_counterexample:
  "total alone = 1 \<and> columnSpan alone = 1 \<and> index alone = 0
   \<and> columnWidthAnim wide_ctx = 100 \<and> eventWidth wide_ctx alone = Some 99"
  by (simp add: alone_def wide_ctx_def eventWidth_def js_div_def)

text \<open>
  C2, amended: the width of an event with \<open>total = 1\<close> and \<open>columnSpan = 1\<close> is the width of
  the day column less \<open>rightEdgeSpacing\<close>; it is the full width of the column exactly when
  \<open>rightEdgeSpacing\<close> is 0.
\<close>

theorem C2_width_of_lone_event:
  fixes ctx :: "'c BodyContext_scheme" and it :: "'a Internal_scheme"
  assumes "total it = 1" "columnSpan it = 1"
  shows "eventWidth ctx it = Some (columnWidthAnim ctx - rightEdgeSpacing ctx)
    \<and> (eventWidth ctx it = Some (columnWidthAnim ctx) \<longleftrightarrow> rightEdgeSpacing ctx = 0)"
  using assms by (simp add: eventWidth_def js_div_def)

theorem C2_width_of_lone_event_witness:
  "total alone = 1 \<and> columnSpan alone = 1 \<and> eventWidth wide_ctx alone = Some (100 - 1)"
  using C2_width_of_lone_event [of alone wide_ctx]
  by (simp add: alone_def wide_ctx_def)

text \<open>
  C3, as stated, fails: the inputs it lists include neither \<open>minuteHeight\<close>, which height
  and top are multiplied with, nor the current value of the animated width, which the left
  edge is computed from. The same event under two contexts that agree on every listed
  input is 60 high with \<open>minuteHeight = 1\<close> and 120 high with \<open>minuteHeight = 2\<close>; and under
  one context its left edge is 50 with the width at rest at 49, and 21 while the width is
  still at 20.
\<close>

theorem C3_minute_height_counterexample:
  "start wide_ctx = start tall_ctx \<and> endMinutes wide_ctx = endMinutes tall_ctx
   \<and> columnWidthAnim wide_ctx = columnWidthAnim tall_ctx
   \<and> rightEdgeSpacing wide_ctx = rightEdgeSpacing tall_ctx
   \<and> overlapEventsSpacing wide_ctx = overlapEventsSpacing tall_ctx
   \<and> layoutHeight (layout wide_ctx second_props settled) = 60
   \<and> layoutHeight (layout tall_ctx second_props settled) = 120
   \<and> layoutLeft (layout wide_ctx second_props settled) = Some 50
   \<and> layoutLeft (layout wide_ctx second_props growing) = Some 21"
  by (simp add: wide_ctx_def tall_ctx_def second_props_def second_of_two_def settled_def
      growing_def layout_def data_def eventHeight_def skipHiddenDays_done ev64)

text \<open>
  C3, amended: two evaluations of the layout that agree on the \<open>_internal\<close> fields
  \<open>duration\<close>, \<open>startMinutes\<close>, \<open>total\<close>, \<open>index\<close>, \<open>columnSpan\<close>, \<open>startUnix\<close>, on \<open>start\<close>,
  \<open>end\<close>, \<open>startUnix\<close>, \<open>visibleDates\<close>, the column width, \<open>rightEdgeSpacing\<close>,
  \<open>overlapEventsSpacing\<close>, on \<open>minuteHeight\<close> and on the current value of the animated width
  \<open>eventWidth.value\<close> compute the same height and top and the same targets for width and
  left, whatever else differs between the two events, props, contexts and animated values:
  the height is the rendered duration times \<open>minuteHeight\<close>, the top the rendered start
  times \<open>minuteHeight\<close>, width and left the targets of \<open>eventWidth\<close> and \<open>eventPosX\<close>.
\<close>

theorem C3_layout_determined_by_inputs:
  fixes c1 :: "'c BodyContext_scheme" and c2 :: "'d BodyContext_scheme"
    and p1 :: "'p EventItemProps_scheme" and p2 :: "'q EventItemProps_scheme"
    and s1 :: "'s SharedValues_scheme" and s2 :: "'t SharedValues_scheme"
  assumes "duration (internal (event p1)) = duration (internal (event p2))"
    and "startMinutes (internal (event p1)) = startMinutes (internal (event p2))"
    and "total (internal (event p1)) = total (internal (event p2))"
    and "index (internal (event p1)) = index (internal (event p2))"
    and "columnSpan (internal (event p1)) = columnSpan (internal (event p2))"
    and "eventStartUnix (internal (event p1)) = eventStartUnix (internal (event p2))"
    and "start c1 = start c2" and "endMinutes c1 = endMinutes c2"
    and "startUnix p1 = startUnix p2" and "visibleDates p1 = visibleDates p2"
    and "columnWidthAnim c1 = columnWidthAnim c2"
    and "rightEdgeSpacing c1 = rightEdgeSpacing c2"
    and "overlapEventsSpacing c1 = overlapEventsSpacing c2"
    and "minuteHeight c1 = minuteHeight c2"
    and "eventWidthValue s1 = eventWidthValue s2"
    and "d1 = data c1 (internal (event p1)) (startUnix p1) (visibleDates p1)"
  shows "layout c1 p1 s1 = layout c2 p2 s2
    \<and> layoutHeight (layout c1 p1 s1) = totalDuration d1 * minuteHeight c1
    \<and> layoutWidth (layout c1 p1 s1) = eventWidth64 c1 (internal (event p1))
    \<and> layoutLeft (layout c1 p1 s1) = eventPosX64 c1 d1 (internal (event p1)) s1
    \<and> layoutTop (layout c1 p1 s1) = dataStartMinutes d1 * minuteHeight c1"
  using assms
  by (simp add: layout_def data_def eventHeight_def eventWidth64_def eventPosX64_def topPos_def
      Let_def)

theorem C3_layout_determined_by_inputs_witness:
  "event lone_props \<noteq> event dragged_props
   \<and> isDragging lone_props \<noteq> isDragging dragged_props
   \<and> eventPosXValue settled \<noteq> eventPosXValue moving
   \<and> layout wide_ctx lone_props settled = layout wide_ctx dragged_props moving
   \<and> layout wide_ctx lone_props settled
       = \<lparr>layoutHeight = 60, layoutWidth = Some 99, layoutLeft = Some 0, layoutTop = 0\<rparr>"
proof -
  have v: "layout wide_ctx lone_props settled
       = \<lparr>layoutHeight = 60, layoutWidth = Some 99, layoutLeft = Some 0, layoutTop = 0\<rparr>"
    by (simp add: wide_ctx_def lone_props_def alone_def settled_def layout_def data_def
      eventHeight_def topPos_def skipHiddenDays_done ev64)
  have ne: "event lone_props \<noteq> event dragged_props"
    "isDragging lone_props \<noteq> isDragging dragged_props"
    "eventPosXValue settled \<noteq> eventPosXValue moving"
    by (simp_all add: lone_props_def dragged_props_def settled_def moving_def)
  have h: "duration (internal (event lone_props)) = duration (internal (event dragged_props))"
    "startMinutes (internal (event lone_props)) = startMinutes (internal (event dragged_props))"
    "total (internal (event lone_props)) = total (internal (event dragged_props))"
    "index (internal (event lone_props)) = index (internal (event dragged_props))"
    "columnSpan (internal (event lone_props)) = columnSpan (internal (event dragged_props))"
    "eventStartUnix (internal (event lone_props))
       = eventStartUnix (internal (event dragged_props))"
    "start wide_ctx = start wide_ctx" "endMinutes wide_ctx = endMinutes wide_ctx"
    "startUnix lone_props = startUnix dragged_props"
    "visibleDates lone_props = visibleDates dragged_props"
    "columnWidthAnim wide_ctx = columnWidthAnim wide_ctx"
    "rightEdgeSpacing wide_ctx = rightEdgeSpacing wide_ctx"
    "overlapEventsSpacing wide_ctx = overlapEventsSpacing wide_ctx"
    "minuteHeight wide_ctx = minuteHeight wide_ctx"
    "eventWidthValue settled = eventWidthValue moving"
    by (simp_all add: lone_props_def dragged_props_def settled_def moving_def)
  have "layout wide_ctx lone_props settled = layout wide_ctx dragged_props moving"
    using C3_layout_determined_by_inputs [OF h refl] by blast
  with ne v show ?thesis by blast
qed

text \<open>
  C4: with \<open>sm\<close> the \<open>startMinutes\<close> of the event (0 when undefined), the rendered duration
  is \<open>min(duration, end - start)\<close>; and when \<open>sm - start < 0\<close> the rendered start is 0 and
  the rendered duration is that minimum less \<open>start - sm\<close>. Otherwise the rendered start is
  \<open>sm - start\<close>.
\<close>

theorem C4_clipped_to_window:
  fixes ctx :: "'c BodyContext_scheme" and it :: "'a Internal_scheme"
  assumes sm: "sm = (case startMinutes it of None \<Rightarrow> 0 | Some m \<Rightarrow> m)"
  shows "(sm - start ctx < 0 \<longrightarrow>
            dataStartMinutes (data ctx it su vd) = 0
            \<and> totalDuration (data ctx it su vd)
                = min (duration it) (endMinutes ctx - start ctx) - (start ctx - sm))
       \<and> (\<not> sm - start ctx < 0 \<longrightarrow>
            dataStartMinutes (data ctx it su vd) = sm - start ctx
            \<and> totalDuration (data ctx it su vd)
                = min (duration it) (endMinutes ctx - start ctx))"
  by (simp add: sm data_def Let_def)

theorem C4_clipped_to_window_witness:
  "(420 - start morning_ctx < 0
     \<and> dataStartMinutes (data morning_ctx early 0 (Map.empty :: int \<rightharpoonup> VisibleDate)) = 0
     \<and> totalDuration (data morning_ctx early 0 (Map.empty :: int \<rightharpoonup> VisibleDate)) = 30)
   \<and> (\<not> 420 - start wide_ctx < 0
     \<and> dataStartMinutes (data wide_ctx early 0 (Map.empty :: int \<rightharpoonup> VisibleDate)) = 420
     \<and> totalDuration (data wide_ctx early 0 (Map.empty :: int \<rightharpoonup> VisibleDate)) = 90)"
proof -
  have sm: "420 = (case startMinutes early of None \<Rightarrow> 0 | Some m \<Rightarrow> m)"
    by (simp add: early_def)
  show ?thesis
    using C4_clipped_to_window [OF sm, of morning_ctx 0 "Map.empty :: int \<rightharpoonup> VisibleDate"]
      C4_clipped_to_window [OF sm, of wide_ctx 0 "Map.empty :: int \<rightharpoonup> VisibleDate"]
    by (simp add: early_def morning_ctx_def wide_ctx_def)
qed

section \<open>Properties of zoom\<close>

text \<open>
  C5, as stated, fails twice. A truthy \<open>scale\<close> wins over \<open>height\<close>: called with
  \<open>scale = 2\<close> and \<open>height = 100\<close> at a height of 60, \<open>zoom\<close> targets 120, where the claim's
  \<open>newHeight\<close> gives 100. And with \<open>minTimeIntervalHeight = 100\<close> above
  \<open>maxTimeIntervalHeight = 50\<close> the target, 100, is not within the two bounds; no value is.
\<close>

theorem C5_scale_wins_counterexample:
  "zoomHeight (zoom clampValues zoom_env (Some both_props)) = 120
   \<and> clampValues (spec_newHeight zoom_env (Some both_props))
        (minTimeIntervalHeight zoom_env) (maxTimeIntervalHeight zoom_env) = 100
   \<and> zoomHeight (zoom clampValues inverted_env None) = 100
   \<and> maxTimeIntervalHeight inverted_env = 50"
  by (simp add: zoom_def newHeight_def spec_newHeight_def clampValues_def zoom_env_def
      inverted_env_def both_props_def js_div_def)

text \<open>
  C5, amended: the height that \<open>zoom\<close> targets is \<open>clampValues(newHeight, min, max)\<close>, where
  \<open>newHeight\<close> is \<open>timeIntervalHeight * scale\<close> if \<open>scale\<close> is given and not 0, else \<open>height\<close>
  if given, else \<open>initialTimeIntervalHeight\<close>; and it lies within \<open>[min, max]\<close> whenever
  \<open>min \<le> max\<close>.
\<close>

theorem C5_zoom_height:
  fixes env :: "'e ZoomEnv_scheme"
  assumes lo: "lo = minTimeIntervalHeight env" and hi: "hi = maxTimeIntervalHeight env"
    and t: "target = zoomHeight (zoom clampValues env props)"
  shows "(\<forall>s h. props = Some \<lparr>scale = Some s, height = h\<rparr> \<and> s \<noteq> 0 \<longrightarrow>
             target = clampValues (timeIntervalHeight env * s) lo hi)
       \<and> (\<forall>s h. props = Some \<lparr>scale = s, height = Some h\<rparr> \<and> (s = None \<or> s = Some 0) \<longrightarrow>
             target = clampValues h lo hi)
       \<and> ((props = None \<or> props = Some \<lparr>scale = None, height = None\<rparr>
            \<or> props = Some \<lparr>scale = Some 0, height = None\<rparr>) \<longrightarrow>
             target = clampValues (initialTimeIntervalHeight env) lo hi)
       \<and> (lo \<le> hi \<longrightarrow> lo \<le> target \<and> target \<le> hi)"
  by (auto simp: lo hi t zoom_def newHeight_def clampValues_def Let_def)

theorem C5_zoom_height_witness:
  "zoomHeight (zoom clampValues zoom_env (Some \<lparr>scale = Some 2, height = Some 100\<rparr>))
     = clampValues (60 * 2) 60 124
   \<and> zoomHeight (zoom clampValues zoom_env (Some \<lparr>scale = None, height = Some 100\<rparr>))
     = clampValues 100 60 124
   \<and> zoomHeight (zoom clampValues zoom_env None) = clampValues 60 60 124
   \<and> (60::real) \<le> 124
   \<and> 60 \<le> zoomHeight (zoom clampValues zoom_env (Some \<lparr>scale = Some 3, height = None\<rparr>))
   \<and> zoomHeight (zoom clampValues zoom_env (Some \<lparr>scale = Some 3, height = None\<rparr>)) \<le> 124"
proof -
  have lo: "60 = minTimeIntervalHeight zoom_env" and hi: "124 = maxTimeIntervalHeight zoom_env"
    and tih: "timeIntervalHeight zoom_env = 60" and ini: "initialTimeIntervalHeight zoom_env = 60"
    by (simp_all add: zoom_env_def)
  show ?thesis
    using C5_zoom_height [OF lo hi refl, of "Some \<lparr>scale = Some 2, height = Some 100\<rparr>"]
      C5_zoom_height [OF lo hi refl, of "Some \<lparr>scale = None, height = Some 100\<rparr>"]
      C5_zoom_height [OF lo hi refl, of None]
      C5_zoom_height [OF lo hi refl, of "Some \<lparr>scale = Some 3, height = None\<rparr>"]
    by (simp add: tih ini)
qed

text \<open>
  C6: where the previous \<open>timeIntervalHeight\<close> is not 0, the vertical offset that \<open>zoom\<close>
  scrolls to is \<open>clampedHeight * (offsetY / timeIntervalHeight)\<close>, with \<open>clampedHeight\<close> the
  height it targets, whatever \<open>clampValues\<close> computes; so, where \<open>clampedHeight\<close> is not 0,
  the ratio of the new offset to the new height is that of \<open>offsetY\<close> to the previous one.
\<close>

theorem C6_zoom_keeps_ratio:
  fixes env :: "'e ZoomEnv_scheme"
  assumes "timeIntervalHeight env \<noteq> 0"
    and "clampedHeight = zoomHeight (zoom clamp env props)"
  shows "clampedHeight
           = clamp (newHeight env props) (minTimeIntervalHeight env) (maxTimeIntervalHeight env)
    \<and> (\<exists>y. zoomY (zoom clamp env props) = Some y
          \<and> y = clampedHeight * (offsetY env / timeIntervalHeight env)
          \<and> (clampedHeight \<noteq> 0 \<longrightarrow>
                y / clampedHeight = offsetY env / timeIntervalHeight env))"
  using assms by (simp add: zoom_def js_div_def Let_def)

theorem C6_zoom_keeps_ratio_witness:
  "timeIntervalHeight zoom_env \<noteq> 0
   \<and> zoomHeight (zoom clampValues zoom_env (Some both_props)) = 120
   \<and> zoomY (zoom clampValues zoom_env (Some both_props)) = Some 600
   \<and> (600::real) / 120 = offsetY zoom_env / timeIntervalHeight zoom_env"
proof -
  have h: "timeIntervalHeight zoom_env \<noteq> 0" by (simp add: zoom_env_def)
  show ?thesis
    using h C6_zoom_keeps_ratio [OF h refl, of clampValues "Some both_props"]
    by (simp add: zoom_env_def both_props_def newHeight_def clampValues_def)
qed

section \<open>Properties of the container\<close>

text \<open>
  C7: with \<open>n\<close> the prop \<open>numberOfDays\<close> (7 when left out) and \<open>hidden\<close> the hidden week
  days, the container throws the error \<open>The maximum number of days is 7\<close> exactly when
  \<open>n > 7\<close>; for \<open>n \<le> 7\<close> it does not throw and shows \<open>min(n, 7 - length hidden)\<close> days.
\<close>

theorem C7_maximum_number_of_days:
  fixes props :: "'a CalendarProviderProps_scheme"
  assumes n: "n = (case initialNumberOfDays props of None \<Rightarrow> 7 | Some k \<Rightarrow> k)"
    and h: "hidden = (case initialHideWeekDays props of None \<Rightarrow> [] | Some ds \<Rightarrow> ds)"
  shows "(CalendarContainer props = Inl (Error ''The maximum number of days is 7'') \<longleftrightarrow> n > 7)
       \<and> (n \<le> 7 \<longrightarrow> (\<exists>r. CalendarContainer props = Inr r
              \<and> numberOfDays r = min n (7 - int (length hidden))))"
  by (auto simp: n h CalendarContainer_def Let_def min_def)

theorem C7_maximum_number_of_days_witness:
  "CalendarContainer eight_days = Inl (Error ''The maximum number of days is 7'')
   \<and> (\<exists>r. CalendarContainer five_days = Inr r \<and> numberOfDays r = min 6 (7 - 2))"
proof -
  have n8: "8 = (case initialNumberOfDays eight_days of None \<Rightarrow> 7 | Some k \<Rightarrow> k)"
    and n6: "6 = (case initialNumberOfDays five_days of None \<Rightarrow> 7 | Some k \<Rightarrow> k)"
    and h5: "[6, 7] = (case initialHideWeekDays five_days of None \<Rightarrow> [] | Some ds \<Rightarrow> ds)"
    by (simp_all add: eight_days_def five_days_def)
  show ?thesis
    using C7_maximum_number_of_days [OF n8 refl] C7_maximum_number_of_days [OF n6 h5]
    by simp
qed

section \<open>Properties of the page navigation\<close>

lemma prevPageTarget_nonneg: "0 \<le> fst (prevPageTarget cal f cur)"
  by (simp add: prevPageTarget_def Let_def)

lemma elemAt_Some: "elemAt xs i = Some x \<Longrightarrow> 0 \<le> i \<and> i < int (length xs) \<and> x = xs ! nat i"
  by (auto simp: elemAt_def split: if_splits)

lemma truthy_None [simp]: "\<not> truthy None"
  by (simp add: truthy_def)

text \<open>
  C8: with \<open>cur\<close> the index of the current visible date and \<open>nx\<close>, \<open>pv\<close> the targets (day
  index and offset) of \<open>goToNextPage\<close> and \<open>goToPrevPage\<close>: the day index of \<open>pv\<close> is never
  below 0. When a page change is pending or the current date is not in
  \<open>visibleDatesArray\<close>, both leave the state as it is: no scroll, and \<open>triggerDateChanged\<close>
  not assigned. Otherwise, when the target index has no date or the target offset is not
  scrollable, they issue no scroll and leave \<open>triggerDateChanged\<close> undefined. And whenever
  one of them does scroll, its target index is inside the list and \<open>triggerDateChanged\<close>
  is the date at that index.
\<close>

theorem C8_page_navigation:
  fixes cal :: "'c Calendar_scheme"
  assumes cur: "cur = indexOf (visibleDatesArray cal) (visibleDateUnix cal)"
    and f: "f = (case force of None \<Rightarrow> False | Some b \<Rightarrow> b)"
    and nx: "nx = nextPageTarget cal f cur"
    and pv: "pv = prevPageTarget cal f cur"
    and n': "n' = goToNextPage cal animated force st"
    and p': "p' = goToPrevPage cal animated force st"
  shows "0 \<le> fst pv
    \<and> (truthy (triggerDateChanged st) \<or> cur = - 1 \<longrightarrow> n' = st \<and> p' = st)
    \<and> (\<not> truthy (triggerDateChanged st) \<and> cur \<noteq> - 1
         \<and> (elemAt (visibleDatesArray cal) (fst nx) = None \<or> \<not> isScrollable cal (snd nx))
        \<longrightarrow> n' = st\<lparr>triggerDateChanged := None\<rparr>)
    \<and> (\<not> truthy (triggerDateChanged st) \<and> cur \<noteq> - 1
         \<and> (elemAt (visibleDatesArray cal) (fst pv) = None \<or> \<not> isScrollable cal (snd pv))
        \<longrightarrow> p' = st\<lparr>triggerDateChanged := None\<rparr>)
    \<and> (gridScrolls n' \<noteq> gridScrolls st \<longrightarrow>
          0 \<le> fst nx \<and> fst nx < int (length (visibleDatesArray cal))
          \<and> triggerDateChanged n' = Some (visibleDatesArray cal ! nat (fst nx)))
    \<and> (gridScrolls p' \<noteq> gridScrolls st \<longrightarrow>
          0 \<le> fst pv \<and> fst pv < int (length (visibleDatesArray cal))
          \<and> triggerDateChanged p' = Some (visibleDatesArray cal ! nat (fst pv)))"
proof -
  have a: "0 \<le> fst pv" by (simp add: pv prevPageTarget_nonneg)
  have b: "truthy (triggerDateChanged st) \<or> cur = - 1 \<longrightarrow> n' = st \<and> p' = st"
    by (auto simp: n' p' cur goToNextPage_def goToPrevPage_def Let_def)
  have c: "\<not> truthy (triggerDateChanged st) \<and> cur \<noteq> - 1
         \<and> (elemAt (visibleDatesArray cal) (fst nx) = None \<or> \<not> isScrollable cal (snd nx))
        \<longrightarrow> n' = st\<lparr>triggerDateChanged := None\<rparr>"
    using cur f nx
    by (auto simp: n' goToNextPage_def Let_def split: prod.splits)
  have d: "\<not> truthy (triggerDateChanged st) \<and> cur \<noteq> - 1
         \<and> (elemAt (visibleDatesArray cal) (fst pv) = None \<or> \<not> isScrollable cal (snd pv))
        \<longrightarrow> p' = st\<lparr>triggerDateChanged := None\<rparr>"
    using cur f pv
    by (auto simp: p' goToPrevPage_def Let_def split: prod.splits)
  have e: "gridScrolls n' \<noteq> gridScrolls st \<longrightarrow>
          0 \<le> fst nx \<and> fst nx < int (length (visibleDatesArray cal))
          \<and> triggerDateChanged n' = Some (visibleDatesArray cal ! nat (fst nx))"
    using cur f nx
    by (auto simp: n' goToNextPage_def Let_def truthy_def
        split: prod.splits if_splits option.splits dest: elemAt_Some)
  have g: "gridScrolls p' \<noteq> gridScrolls st \<longrightarrow>
          0 \<le> fst pv \<and> fst pv < int (length (visibleDatesArray cal))
          \<and> triggerDateChanged p' = Some (visibleDatesArray cal ! nat (fst pv))"
    using cur f pv
    by (auto simp: p' goToPrevPage_def Let_def truthy_def
        split: prod.splits if_splits option.splits dest: elemAt_Some)
  from a b c d e g show ?thesis by blast
qed

theorem C8_page_navigation_witness:
  "truthy (triggerDateChanged pending)
   \<and> goToNextPage three_dates None None pending = pending
   \<and> goToPrevPage three_dates None None pending = pending
   \<and> \<not> truthy (triggerDateChanged idle)
   \<and> elemAt (visibleDatesArray at_last_date) 3 = None
   \<and> goToNextPage at_last_date None None idle = idle\<lparr>triggerDateChanged := None\<rparr>
   \<and> gridScrolls (goToPrevPage at_last_date None None idle) \<noteq> gridScrolls idle
   \<and> triggerDateChanged (goToPrevPage at_last_date None None idle) = Some 172800000
   \<and> gridScrolls (goToNextPage three_dates None None idle) \<noteq> gridScrolls idle
   \<and> triggerDateChanged (goToNextPage three_dates None None idle) = Some 172800000"
proof -
  have cur0: "0 = indexOf (visibleDatesArray three_dates) (visibleDateUnix three_dates)"
    and cur2: "2 = indexOf (visibleDatesArray at_last_date) (visibleDateUnix at_last_date)"
    by (simp_all add: three_dates_def at_last_date_def indexOf_def)
  have f: "False = (case None of None \<Rightarrow> False | Some b \<Rightarrow> b)" by simp
  have nx0: "(1, Some 100) = nextPageTarget three_dates False 0"
    and nx2: "(3, Some 300) = nextPageTarget at_last_date False 2"
    and pv0: "(0, Some 0) = prevPageTarget three_dates False 0"
    and pv2: "(1, Some 100) = prevPageTarget at_last_date False 2"
    by (simp_all add: three_dates_def at_last_date_def nextPageTarget_def prevPageTarget_def)
  have pend: "truthy (triggerDateChanged pending)"
    and idl: "\<not> truthy (triggerDateChanged idle)"
    and last: "elemAt (visibleDatesArray at_last_date) 3 = None"
    by (simp_all add: pending_def idle_def truthy_def elemAt_def at_last_date_def three_dates_def)
  have sc1: "gridScrolls (goToPrevPage at_last_date None None idle) \<noteq> gridScrolls idle"
    and sc2: "gridScrolls (goToNextPage three_dates None None idle) \<noteq> gridScrolls idle"
    by (simp_all add: goToPrevPage_def goToNextPage_def idle_def at_last_date_def three_dates_def
        indexOf_def truthy_def elemAt_def nextPageTarget_def prevPageTarget_def
        isScrollable_def)
  show ?thesis
    using pend idl last sc1 sc2
      C8_page_navigation [OF cur0 f nx0 pv0 refl refl, where animated = None and st = pending]
      C8_page_navigation [OF cur2 f nx2 pv2 refl refl, where animated = None and st = idle]
      C8_page_navigation [OF cur0 f nx0 pv0 refl refl, where animated = None and st = idle]
    by (simp add: three_dates_def at_last_date_def)
qed

section \<open>Properties of getEventByOffset\<close>

lemma inBand_iff:
  "total it \<noteq> 0 \<Longrightarrow>
     inBand cw tx it \<longleftrightarrow>
       of_int (index it) * cw / of_int (total it) \<le> tx
       \<and> tx \<le> (of_int (index it) + 1) * cw / of_int (total it)"
  by (auto simp: inBand_def js_div_def Let_def field_simps)

lemma inBand_total0: "total it = 0 \<Longrightarrow> \<not> inBand cw tx it"
  by (simp add: inBand_def js_div_def)

lemma findEvent_none:
  "(\<And>a. a \<in> set as \<Longrightarrow>
        \<exists>ev it. elemAt h (int a) = Some ev \<and> objInternal ev = Some it \<and> \<not> inBand cw tx it)
   \<Longrightarrow> findEvent h cw tx as = Inr None"
  by (induction as) fastforce+

lemma findEvent_some:
  "findEvent h cw tx as = Inr (Some a) \<Longrightarrow>
     a \<in> set as \<and> a < length h
     \<and> (\<exists>it. objInternal (h ! a) = Some it \<and> inBand cw tx it)"
proof (induction as)
  case Nil
  then show ?case by simp
next
  case (Cons b bs)
  then show ?case
    by (auto simp: elemAt_def Option.bind_eq_Some_conv split: option.splits if_splits)
qed

lemma getEventByOffset_some:
  fixes cal :: "'c Calendar_scheme"
  assumes "getEventByOffset cal g h position = Inr (Some r, h')"
  shows "\<exists>date a it. getDateByOffset cal position = Some date
     \<and> a \<in> set (case g of None \<Rightarrow> [] | Some f \<Rightarrow> f date) \<and> a < length h
     \<and> objInternal (h ! a) = Some it
     \<and> inBand (columnWidth cal)
          (posX position - of_int (floor (posX position / columnWidth cal)) * columnWidth cal) it
     \<and> r = length h \<and> h' = h @ [(h ! a)\<lparr>objInternal := None\<rparr>]"
  using assms
  by (auto simp: getEventByOffset_def Let_def spread_def delete_internal_def
      split: option.splits sum.splits dest!: findEvent_some)

text \<open>
  C9: with \<open>targetX\<close> the x coordinate within its column. \<open>getEventByOffset\<close> returns null,
  and leaves the store as it is, when no date is resolved at the position, and when every
  event of the resolved date is a packed event in the store whose band
  \<open>[index * columnWidth / total, (index + 1) * columnWidth / total]\<close> does not hold \<open>targetX\<close>.
  When it returns an event, that is a new object at the end of the store, without
  \<open>_internal\<close> and otherwise with the fields of a stored event of that date whose band
  holds \<open>targetX\<close>; every object that was in the store is unchanged.
\<close>

theorem C9_event_by_offset:
  fixes cal :: "'c Calendar_scheme"
  assumes tx: "targetX = posX position
                  - of_int (floor (posX position / columnWidth cal)) * columnWidth cal"
    and res: "result = getEventByOffset cal g h position"
  shows "(getDateByOffset cal position = None \<longrightarrow> result = Inr (None, h))
    \<and> (\<forall>date. getDateByOffset cal position = Some date
          \<and> (\<forall>a \<in> set (case g of None \<Rightarrow> [] | Some f \<Rightarrow> f date).
                \<exists>ev it. elemAt h (int a) = Some ev \<and> objInternal ev = Some it
                  \<and> \<not> (total it \<noteq> 0
                       \<and> of_int (index it) * columnWidth cal / of_int (total it) \<le> targetX
                       \<and> targetX \<le> (of_int (index it) + 1) * columnWidth cal
                                       / of_int (total it)))
          \<longrightarrow> result = Inr (None, h))
    \<and> (\<forall>r h'. result = Inr (Some r, h') \<longrightarrow>
          r = length h \<and> length h' = length h + 1
          \<and> (\<forall>i < length h. h' ! i = h ! i)
          \<and> objInternal (h' ! r) = None
          \<and> (\<exists>date a it. getDateByOffset cal position = Some date
                \<and> a \<in> set (case g of None \<Rightarrow> [] | Some f \<Rightarrow> f date) \<and> a < length h
                \<and> objInternal (h ! a) = Some it
                \<and> of_int (index it) * columnWidth cal / of_int (total it) \<le> targetX
                \<and> targetX \<le> (of_int (index it) + 1) * columnWidth cal / of_int (total it)
                \<and> objItem (h' ! r) = objItem (h ! a)))"
proof -
  have a: "getDateByOffset cal position = None \<longrightarrow> result = Inr (None, h)"
    by (simp add: res getEventByOffset_def)
  have b: "result = Inr (None, h)"
    if d: "getDateByOffset cal position = Some date"
      and no: "\<forall>a \<in> set (case g of None \<Rightarrow> [] | Some f \<Rightarrow> f date).
                \<exists>ev it. elemAt h (int a) = Some ev \<and> objInternal ev = Some it
                  \<and> \<not> (total it \<noteq> 0
                       \<and> of_int (index it) * columnWidth cal / of_int (total it) \<le> targetX
                       \<and> targetX \<le> (of_int (index it) + 1) * columnWidth cal
                                       / of_int (total it))"
    for date
  proof -
    have "findEvent h (columnWidth cal) targetX (case g of None \<Rightarrow> [] | Some f \<Rightarrow> f date)
            = Inr None"
    proof (rule findEvent_none)
      fix a assume "a \<in> set (case g of None \<Rightarrow> [] | Some f \<Rightarrow> f date)"
      with no obtain ev it where e: "elemAt h (int a) = Some ev" "objInternal ev = Some it"
        and nb: "\<not> (total it \<noteq> 0
                       \<and> of_int (index it) * columnWidth cal / of_int (total it) \<le> targetX
                       \<and> targetX \<le> (of_int (index it) + 1) * columnWidth cal
                                       / of_int (total it))"
        by blast
      have "\<not> inBand (columnWidth cal) targetX it"
      proof (cases "total it = 0")
        case True
        then show ?thesis by (rule inBand_total0)
      next
        case False
        with nb show ?thesis by (simp add: inBand_iff)
      qed
      with e show "\<exists>ev it. elemAt h (int a) = Some ev \<and> objInternal ev = Some it
          \<and> \<not> inBand (columnWidth cal) targetX it"
        by blast
    qed
    then show ?thesis
      using d by (simp add: res getEventByOffset_def Let_def tx)
  qed
  have c: "r = length h \<and> length h' = length h + 1
          \<and> (\<forall>i < length h. h' ! i = h ! i)
          \<and> objInternal (h' ! r) = None
          \<and> (\<exists>date a it. getDateByOffset cal position = Some date
                \<and> a \<in> set (case g of None \<Rightarrow> [] | Some f \<Rightarrow> f date) \<and> a < length h
                \<and> objInternal (h ! a) = Some it
                \<and> of_int (index it) * columnWidth cal / of_int (total it) \<le> targetX
                \<and> targetX \<le> (of_int (index it) + 1) * columnWidth cal / of_int (total it)
                \<and> objItem (h' ! r) = objItem (h ! a))"
    if "result = Inr (Some r, h')" for r h'
  proof -
    from that res have "getEventByOffset cal g h position = Inr (Some r, h')" by simp
    from getEventByOffset_some[OF this] obtain date a it where g:
      "getDateByOffset cal position = Some date"
      "a \<in> set (case g of None \<Rightarrow> [] | Some f \<Rightarrow> f date)"
      "a < length h" "objInternal (h ! a) = Some it"
      "inBand (columnWidth cal) targetX it"
      "r = length h"
      "h' = h @ [(h ! a)\<lparr>objInternal := None\<rparr>]"
      unfolding tx by blast
    have t0: "total it \<noteq> 0" using g(5) inBand_total0 by blast
    have band: "of_int (index it) * columnWidth cal / of_int (total it) \<le> targetX
        \<and> targetX \<le> (of_int (index it) + 1) * columnWidth cal / of_int (total it)"
      using g(5) inBand_iff[OF t0] by blast
    have "objItem (h' ! r) = objItem (h ! a)" "objInternal (h' ! r) = None"
      "length h' = length h + 1" "\<forall>i < length h. h' ! i = h ! i"
      using g(6,7) by (simp_all add: nth_append)
    with g(1-4,6) band show ?thesis by blast
  qed
  from a b c show ?thesis by blast
qed

theorem C9_event_by_offset_witness:
  "getDateByOffset three_dates beyond = None
   \<and> getEventByOffset three_dates (Some events_of_day) two_events beyond
       = Inr (None, two_events)
   \<and> getEventByOffset three_dates (Some events_of_day) two_events on_second
       = Inr (Some 2, two_events @ [(two_events ! 1)\<lparr>objInternal := None\<rparr>])
   \<and> (two_events @ [(two_events ! 1)\<lparr>objInternal := None\<rparr>]) ! 0 = two_events ! 0
   \<and> (two_events @ [(two_events ! 1)\<lparr>objInternal := None\<rparr>]) ! 1 = two_events ! 1
   \<and> objInternal ((two_events @ [(two_events ! 1)\<lparr>objInternal := None\<rparr>]) ! 2) = None
   \<and> objItem ((two_events @ [(two_events ! 1)\<lparr>objInternal := None\<rparr>]) ! 2)
       = objItem (two_events ! 1)"
proof -
  have none: "getDateByOffset three_dates beyond = None"
    by (simp add: getDateByOffset_def three_dates_def beyond_def indexOf_def js_div_def
        elemAt_def)
  have some: "getEventByOffset three_dates (Some events_of_day) two_events on_second
       = Inr (Some 2, two_events @ [(two_events ! 1)\<lparr>objInternal := None\<rparr>])"
    by (simp add: getEventByOffset_def getDateByOffset_def three_dates_def on_second_def
        indexOf_def js_div_def elemAt_def events_of_day_def two_events_def inBand_def
        first_of_two_def second_of_two_def spread_def delete_internal_def truthy_def)
  show ?thesis
    using none some
      C9_event_by_offset [OF refl refl, of three_dates beyond "Some events_of_day" two_events]
      C9_event_by_offset [OF refl refl, of three_dates on_second "Some events_of_day" two_events]
    by (simp add: two_events_def)
qed

end
